theory Spec2Isabelle
  imports Complex_Main
begin

section \<open>JavaScript values and objects\<close>

text \<open>
  The booking wizard passes plain JavaScript objects between its steps. A property value
  is a string or a number (\<open>NaN\<close> is what an empty numeric input yields); a property that
  is absent, or \<open>undefined\<close>, is a key outside the domain of the map.
\<close>

datatype jv = JStr string | JNum real | JNaN

type_synonym obj = "string \<rightharpoonup> jv"

text \<open>Object spread \<open>{ ...a, ...b }\<close>: the keys of both, \<open>b\<close> winning on a shared key.\<close>

definition spread :: "obj \<Rightarrow> obj \<Rightarrow> obj" where
  "spread a b = (\<lambda>k. case b k of Some v \<Rightarrow> Some v | None \<Rightarrow> a k)"

section \<open>Dates\<close>

text \<open>
  A \<open>Date\<close> is an instant, held as the milliseconds since 1970-01-01T00:00 on the clock
  its reader uses: the local wall clock for the calendar (date-fns works in local time),
  UTC for \<open>toISOString\<close>. The model has no time zone and no daylight saving: a day
  is 86400000 ms on either clock, and no function below moves an instant from one clock
  to the other.
\<close>

definition ms_per_day :: int where
  "ms_per_day = 86400000"

definition startOfDay :: "int \<Rightarrow> int" where
  "startOfDay t = t - t mod ms_per_day"

definition addDays :: "int \<Rightarrow> int \<Rightarrow> int" where
  "addDays t n = t + n * ms_per_day"

definition isBefore :: "int \<Rightarrow> int \<Rightarrow> bool" where
  "isBefore a b = (a < b)"

definition isAfter :: "int \<Rightarrow> int \<Rightarrow> bool" where
  "isAfter a b = (b < a)"

text \<open>\<open>getDay\<close>: 0 is Sunday; 1970-01-01 was a Thursday.\<close>

definition getDay :: "int \<Rightarrow> int" where
  "getDay t = (t div ms_per_day + 4) mod 7"

text \<open>
  Year, month and day of an instant in the proleptic Gregorian calendar, counted in
  400-year eras that start on 1 March: the day within the era, the year within the era,
  the day within that year, the month counted from March.
\<close>

definition day_of_era :: "int \<Rightarrow> int" where
  "day_of_era t = (t div ms_per_day + 719468) mod 146097"

definition era :: "int \<Rightarrow> int" where
  "era t = (t div ms_per_day + 719468) div 146097"

definition year_of_era :: "int \<Rightarrow> int" where
  "year_of_era doe = (doe - doe div 1460 + doe div 36524 - doe div 146096) div 365"

definition day_of_year :: "int \<Rightarrow> int" where
  "day_of_year doe =
     doe - (365 * year_of_era doe + year_of_era doe div 4 - year_of_era doe div 100)"

definition month_from_march :: "int \<Rightarrow> int" where
  "month_from_march doy = (5 * doy + 2) div 153"

definition getDate :: "int \<Rightarrow> int" where
  "getDate t = day_of_year (day_of_era t)
     - (153 * month_from_march (day_of_year (day_of_era t)) + 2) div 5 + 1"

text \<open>\<open>getMonth\<close>: 0 is January.\<close>

definition getMonth :: "int \<Rightarrow> int" where
  "getMonth t =
     (if month_from_march (day_of_year (day_of_era t)) < 10
      then month_from_march (day_of_year (day_of_era t)) + 2
      else month_from_march (day_of_year (day_of_era t)) - 10)"

definition getFullYear :: "int \<Rightarrow> int" where
  "getFullYear t =
     year_of_era (day_of_era t) + era t * 400 + (if getMonth t \<le> 1 then 1 else 0)"

definition getHours :: "int \<Rightarrow> int" where
  "getHours t = (t mod ms_per_day) div 3600000"

definition getMinutes :: "int \<Rightarrow> int" where
  "getMinutes t = (t mod 3600000) div 60000"

definition getSeconds :: "int \<Rightarrow> int" where
  "getSeconds t = (t mod 60000) div 1000"

definition getMilliseconds :: "int \<Rightarrow> int" where
  "getMilliseconds t = t mod 1000"

text \<open>Decimal digits of a natural number, and padding with zeros on the left.\<close>

fun show_nat :: "nat \<Rightarrow> string" where
  "show_nat n = (if n < 10 then [''0123456789'' ! n]
                 else show_nat (n div 10) @ [''0123456789'' ! (n mod 10)])"

declare show_nat.simps [simp del]

definition addLeadingZeros :: "nat \<Rightarrow> nat \<Rightarrow> string" where
  "addLeadingZeros n len = replicate (len - length (show_nat n)) (CHR ''0'') @ show_nat n"

text \<open>
  \<open>format(date, 'yyyy-MM-dd')\<close> of date-fns. Its \<open>yyyy\<close> prints the year \<open>y\<close> itself
  when \<open>y\<close> is positive and \<open>1 - y\<close> otherwise.
\<close>

definition format_yyyy_MM_dd :: "int \<Rightarrow> string" where
  "format_yyyy_MM_dd t =
     addLeadingZeros (nat (if 0 < getFullYear t then getFullYear t else 1 - getFullYear t)) 4
     @ ''-'' @ addLeadingZeros (nat (getMonth t + 1)) 2
     @ ''-'' @ addLeadingZeros (nat (getDate t)) 2"

text \<open>
  \<open>Date.prototype.toISOString\<close>: four digits for the years 0 to 9999, a sign and six
  digits for the others.
\<close>

definition toISOString :: "int \<Rightarrow> string" where
  "toISOString t =
     (if 0 \<le> getFullYear t \<and> getFullYear t \<le> 9999 then addLeadingZeros (nat (getFullYear t)) 4
      else (if getFullYear t < 0 then ''-'' else ''+'') @ addLeadingZeros (nat \<bar>getFullYear t\<bar>) 6)
     @ ''-'' @ addLeadingZeros (nat (getMonth t + 1)) 2
     @ ''-'' @ addLeadingZeros (nat (getDate t)) 2
     @ ''T'' @ addLeadingZeros (nat (getHours t)) 2
     @ '':'' @ addLeadingZeros (nat (getMinutes t)) 2
     @ '':'' @ addLeadingZeros (nat (getSeconds t)) 2
     @ ''.'' @ addLeadingZeros (nat (getMilliseconds t)) 3 @ ''Z''"

text \<open>\<open>Number.prototype.toString\<close> on an integer.\<close>

definition toString :: "int \<Rightarrow> string" where
  "toString i = (if i < 0 then ''-'' @ show_nat (nat (- i)) else show_nat (nat i))"

text \<open>A calendar date as the calendar widget passes it: the day's local midnight.\<close>

definition atMidnight :: "int \<Rightarrow> int" where
  "atMidnight d = d * ms_per_day"

section \<open>Persisted storage\<close>

text \<open>
  What \<open>localStorage\<close> holds under one key, as the component's read of it sees it:
  nothing (or the empty string), a text that is not JSON, JSON that is not an array, an
  array of items; or the storage cannot be read at all (\<open>getItem\<close> throws).
\<close>

datatype 'a stored = Missing | Malformed | NotArray | Items "'a list" | Unreadable

datatype js_error = SyntaxError | TypeError | SecurityError | QuotaExceededError

text \<open>
  \<open>JSON.parse(localStorage.getItem(key) || '[]')\<close>, then an array method on the result
  (\<open>forEach\<close>, \<open>push\<close>): the parse throws on a text that is not JSON, the method call
  throws on a value that is not an array.
\<close>

definition parsed_array :: "'a stored \<Rightarrow> js_error + 'a list" where
  "parsed_array s = (case s of
       Missing \<Rightarrow> Inr []
     | Malformed \<Rightarrow> Inl SyntaxError
     | NotArray \<Rightarrow> Inl TypeError
     | Items xs \<Rightarrow> Inr xs
     | Unreadable \<Rightarrow> Inl SecurityError)"

section \<open>The availability engine (AppointmentCalendar)\<close>

record appointment =
  appointment_date :: string
  appointment_time :: string
  status :: string

text \<open>
  An entry of \<open>unavailable_schedules\<close>; \<open>is_full_day\<close> is the truthiness of the field,
  \<open>unavailable_time\<close> is \<open>None\<close> when the field is null or absent.
\<close>

record unavailable =
  unavailable_date :: string
  is_full_day :: bool
  unavailable_time :: "string option"

record calendar =
  selected :: "int option"
  selectedTimeSlot :: string
  bookedSlots :: "string \<rightharpoonup> string list"
  unavailableSchedules :: "unavailable list"

definition timeSlots :: "string list" where
  "timeSlots = [''09:00'', ''09:30'', ''10:00'', ''10:30'', ''11:00'', ''11:30'',
     ''14:00'', ''14:30'', ''15:00'', ''15:30'', ''16:00'', ''16:30'', ''17:00'']"

text \<open>
  \<open>bookedByDate\<close> is a plain object literal, so reading it at a key finds, besides
  the keys stored in it, the properties every object inherits from \<open>Object.prototype\<close>.
  Each of those is a function or an object: truthy, and with no \<open>push\<close>.
\<close>

definition inherited :: "string list" where
  "inherited = [''constructor'', ''toString'', ''toLocaleString'', ''valueOf'',
     ''hasOwnProperty'', ''isPrototypeOf'', ''propertyIsEnumerable'', ''__proto__'',
     ''__defineGetter__'', ''__defineSetter__'', ''__lookupGetter__'', ''__lookupSetter__'']"

text \<open>
  The body of the \<open>forEach\<close> in \<open>loadBookedAppointments\<close>. At an inherited key the
  test \<open>!bookedByDate[dateKey]\<close> is false, no array is stored, and the call of \<open>push\<close>
  throws.
\<close>

definition addBooked ::
  "(string \<rightharpoonup> string list) \<Rightarrow> appointment \<Rightarrow> js_error + (string \<rightharpoonup> string list)" where
  "addBooked bookedByDate apt =
     (if status apt \<noteq> ''Didn't show up'' then
        (if appointment_date apt \<in> set inherited then Inl TypeError
         else Inr (bookedByDate(appointment_date apt \<mapsto>
           (case bookedByDate (appointment_date apt) of None \<Rightarrow> [] | Some booked \<Rightarrow> booked)
             @ [appointment_time apt])))
      else Inr bookedByDate)"

text \<open>The \<open>forEach\<close> itself: it stops at the first exception.\<close>

fun forEach_addBooked ::
  "(string \<rightharpoonup> string list) \<Rightarrow> appointment list \<Rightarrow> js_error + (string \<rightharpoonup> string list)" where
  "forEach_addBooked bookedByDate [] = Inr bookedByDate"
| "forEach_addBooked bookedByDate (apt # apts) = (case addBooked bookedByDate apt of
       Inl error \<Rightarrow> Inl error
     | Inr bookedByDate' \<Rightarrow> forEach_addBooked bookedByDate' apts)"

text \<open>
  \<open>loadBookedAppointments\<close>: any exception of the \<open>try\<close> block is logged, and
  \<open>setBookedSlots\<close> is not reached: the state stays as it was.
\<close>

definition loadBookedAppointments :: "appointment stored \<Rightarrow> calendar \<Rightarrow> calendar" where
  "loadBookedAppointments src st = (case parsed_array src of
       Inl error \<Rightarrow> st
     | Inr appointments \<Rightarrow>
         (case forEach_addBooked Map.empty appointments of
            Inl error \<Rightarrow> st
          | Inr bookedByDate \<Rightarrow> st\<lparr>bookedSlots := bookedByDate\<rparr>))"

text \<open>\<open>isDateDisabled\<close>; \<open>now\<close> is what \<open>new Date()\<close> returns.\<close>

definition isDateDisabled :: "int \<Rightarrow> unavailable list \<Rightarrow> int \<Rightarrow> bool" where
  "isDateDisabled now schedules date =
     (if isBefore date (startOfDay now) \<or> isAfter date (addDays (startOfDay now) 60) then True
      else if getDay date = 0 then True
      else list_ex (\<lambda>schedule. unavailable_date schedule = format_yyyy_MM_dd date
                              \<and> is_full_day schedule) schedules)"

text \<open>
  \<open>isTimeSlotAvailable\<close>. The key it reads \<open>bookedSlots\<close> at is a formatted date, which
  is never the name of an inherited property (lemma \<open>format_not_inherited\<close> below).
\<close>

definition isTimeSlotAvailable :: "calendar \<Rightarrow> string \<Rightarrow> bool" where
  "isTimeSlotAvailable st time = (case selected st of
       None \<Rightarrow> False
     | Some date \<Rightarrow>
         (if time \<in> set (case bookedSlots st (format_yyyy_MM_dd date) of
                            None \<Rightarrow> [] | Some booked \<Rightarrow> booked)
          then False
          else \<not> list_ex (\<lambda>schedule. unavailable_date schedule = format_yyyy_MM_dd date
                                  \<and> \<not> is_full_day schedule
                                  \<and> unavailable_time schedule = Some time)
                    (unavailableSchedules st)))"

definition getAvailableTimesCount :: "calendar \<Rightarrow> nat" where
  "getAvailableTimesCount st = (case selected st of
       None \<Rightarrow> 0
     | Some date \<Rightarrow> length (filter (isTimeSlotAvailable st) timeSlots))"

definition handleDateSelect :: "int option \<Rightarrow> calendar \<Rightarrow> calendar" where
  "handleDateSelect date st = st\<lparr>selected := date, selectedTimeSlot := []\<rparr>"

definition handleTimeSelect :: "string \<Rightarrow> calendar \<Rightarrow> calendar" where
  "handleTimeSelect time st = st\<lparr>selectedTimeSlot := time\<rparr>"

text \<open>
  \<open>handleContinue\<close>: the date and time handed to \<open>onDateTimeSelect\<close>, when both are
  chosen.
\<close>

definition handleContinue :: "calendar \<Rightarrow> (string \<times> string) option" where
  "handleContinue st = (case selected st of
       None \<Rightarrow> None
     | Some date \<Rightarrow>
         (if selectedTimeSlot st \<noteq> [] then Some (format_yyyy_MM_dd date, selectedTimeSlot st)
          else None))"

section \<open>The wizard controller (BookingModal.tsx, Booking.tsx)\<close>

text \<open>
  \<open>useState(1)\<close> and \<open>useState<Partial<BookingData>>({})\<close>: the controller's state is
  the step number (a JavaScript number, never bounded by the handlers) and the
  accumulated booking data.
\<close>

record wizard =
  currentStep :: int
  bookingData :: obj

definition initial :: wizard where
  "initial = \<lparr>currentStep = 1, bookingData = Map.empty\<rparr>"

definition handleStepComplete :: "obj \<Rightarrow> wizard \<Rightarrow> wizard" where
  "handleStepComplete data w =
     \<lparr>currentStep = currentStep w + 1, bookingData = spread (bookingData w) data\<rparr>"

definition handleBack :: "wizard \<Rightarrow> wizard" where
  "handleBack w = w\<lparr>currentStep := currentStep w - 1\<rparr>"

text \<open>
  The two hosts differ in \<open>handleClose\<close> only. The modal resets its state and tells its
  parent; the page calls \<open>navigate('/')\<close> and leaves its own state alone (the route change
  unmounts the page).
\<close>

datatype host = Modal | Page

definition handleClose :: "host \<Rightarrow> wizard \<Rightarrow> wizard" where
  "handleClose h w = (case h of
       Modal \<Rightarrow> \<lparr>currentStep = 1, bookingData = Map.empty\<rparr>
     | Page \<Rightarrow> w)"

section \<open>The contact form (PatientForm, bookingSchema)\<close>

text \<open>
  A zod issue: the failed check and the message the schema attaches to it.
  \<open>invalid_type\<close> and \<open>invalid_union\<close> carry the library's own message.
\<close>

datatype issue =
    invalid_type
  | too_small string
  | too_big string
  | invalid_string string
  | invalid_union

text \<open>\<open>z.string().min(n, msg)\<close>: the value is a string of length at least \<open>n\<close>.\<close>

definition string_min :: "nat \<Rightarrow> string \<Rightarrow> jv option \<Rightarrow> issue list" where
  "string_min n msg v = (case v of
       Some (JStr s) \<Rightarrow> (if length s < n then [too_small msg] else [])
     | _ \<Rightarrow> [invalid_type])"

text \<open>\<open>z.string().optional()\<close>.\<close>

definition string_optional :: "jv option \<Rightarrow> issue list" where
  "string_optional v = (case v of
       None \<Rightarrow> []
     | Some (JStr s) \<Rightarrow> []
     | _ \<Rightarrow> [invalid_type])"

text \<open>
  \<open>z.string().email(msg).optional().or(z.literal(''))\<close>. The library's test for an email
  address is the parameter \<open>is_email\<close>.
\<close>

definition email_field :: "(string \<Rightarrow> bool) \<Rightarrow> string \<Rightarrow> jv option \<Rightarrow> issue list" where
  "email_field is_email msg v = (case v of
       None \<Rightarrow> []
     | Some (JStr s) \<Rightarrow> (if is_email s \<or> s = [] then [] else [invalid_string msg])
     | _ \<Rightarrow> [invalid_union])"

text \<open>\<open>z.number().min(lo, m1).max(hi, m2)\<close>.\<close>

definition number_range :: "real \<Rightarrow> string \<Rightarrow> real \<Rightarrow> string \<Rightarrow> jv option \<Rightarrow> issue list" where
  "number_range lo m1 hi m2 v = (case v of
       Some (JNum r) \<Rightarrow> (if r < lo then [too_small m1] else []) @ (if hi < r then [too_big m2] else [])
     | _ \<Rightarrow> [invalid_type])"

definition schema_keys :: "string list" where
  "schema_keys = [''customerName'', ''email'', ''phone'', ''service'', ''groupSize'',
     ''specialRequests'', ''emergencyContact'', ''experience'']"

text \<open>The issues of one field of \<open>bookingSchema\<close>, by the field's name.\<close>

definition field_issues :: "(string \<Rightarrow> bool) \<Rightarrow> obj \<Rightarrow> string \<Rightarrow> issue list" where
  "field_issues is_email input k =
     (if k = ''customerName'' then string_min 2 ''Name must be at least 2 characters'' (input k)
      else if k = ''email'' then email_field is_email ''Invalid email address'' (input k)
      else if k = ''phone'' then string_min 10 ''Phone number must be at least 10 digits'' (input k)
      else if k = ''service'' then string_min 1 ''Please select a service'' (input k)
      else if k = ''groupSize'' then
        number_range 1 ''Group size must be at least 1'' 50 ''Maximum group size is 50'' (input k)
      else string_optional (input k))"

text \<open>
  Parsing with the schema: every field's issues under the field's name, or, when there
  is none, the input cut down to the schema's keys.
\<close>

definition bookingSchema :: "(string \<Rightarrow> bool) \<Rightarrow> obj \<Rightarrow> (string \<times> issue) list + obj" where
  "bookingSchema is_email input =
     (let errors = concat (map (\<lambda>k. map (Pair k) (field_issues is_email input k)) schema_keys)
      in if errors = [] then Inr (\<lambda>k. if k \<in> set schema_keys then input k else None)
         else Inl errors)"

text \<open>
  \<open>handleSubmit(handleFormSubmit)\<close>: the form hands the parsed record to \<open>onSubmit\<close> when
  the resolver reports no issue, and calls nothing otherwise.
\<close>

definition handleSubmit :: "(string \<Rightarrow> bool) \<Rightarrow> obj \<Rightarrow> obj option" where
  "handleSubmit is_email input = (case bookingSchema is_email input of
       Inl errors \<Rightarrow> None
     | Inr data \<Rightarrow> Some data)"

text \<open>The number of decimal digits in a text, as the phone field's message counts them.\<close>

definition digit_count :: "string \<Rightarrow> nat" where
  "digit_count s = length (filter (\<lambda>c. c \<in> set ''0123456789'') s)"

section \<open>The confirmation step (BookingConfirmation)\<close>

text \<open>
  What the handler does besides writing the store: a toast (its title, and whether it is
  the destructive variant), the timer that calls \<open>onClose\<close> after the given delay, a
  line on the console.
\<close>

datatype effect = Toast string bool | CloseAfter nat | ConsoleError

record outcome =
  stored_bookings :: "obj stored"
  effects :: "effect list"
  isSubmitting :: bool

text \<open>
  The record built by the handler. \<open>t0\<close> is the clock at \<open>Date.now()\<close>, and \<open>t1\<close>,
  \<open>t2\<close>, \<open>t3\<close> the clock at each of the three \<open>new Date()\<close> that follow.
\<close>

definition newBooking :: "int \<Rightarrow> int \<Rightarrow> int \<Rightarrow> int \<Rightarrow> obj \<Rightarrow> obj" where
  "newBooking t0 t1 t2 t3 data =
     spread (spread [''id'' \<mapsto> JStr (toString t0)] data)
       [''status'' \<mapsto> JStr ''Pending'',
        ''created_at'' \<mapsto> JStr (toISOString t1),
        ''updated_at'' \<mapsto> JStr (toISOString t2),
        ''booked_at'' \<mapsto> JStr (toISOString t3)]"

definition bookingFailed :: "obj stored \<Rightarrow> outcome" where
  "bookingFailed store =
     \<lparr>stored_bookings = store,
      effects = [ConsoleError, Toast ''Booking Failed'' True],
      isSubmitting = False\<rparr>"

text \<open>
  \<open>handleConfirmBooking\<close>. \<open>accepts\<close> tells whether \<open>localStorage.setItem\<close> takes the
  new array (it throws when the quota is exceeded, and then stores nothing).
\<close>

definition handleConfirmBooking ::
  "int \<Rightarrow> int \<Rightarrow> int \<Rightarrow> int \<Rightarrow> (obj list \<Rightarrow> bool) \<Rightarrow> obj \<Rightarrow> obj stored \<Rightarrow> outcome" where
  "handleConfirmBooking t0 t1 t2 t3 accepts data store = (case parsed_array store of
       Inl error \<Rightarrow> bookingFailed store
     | Inr existingBookings \<Rightarrow>
         (if accepts (existingBookings @ [newBooking t0 t1 t2 t3 data]) then
            \<lparr>stored_bookings = Items (existingBookings @ [newBooking t0 t1 t2 t3 data]),
             effects = [Toast ''Paintball Session Booked Successfully!'' False, CloseAfter 2000],
             isSubmitting = False\<rparr>
          else bookingFailed store))"

text \<open>
  The wizard once the confirm button has been handled and any timer it set has fired:
  \<open>onClose\<close> is the host's \<open>handleClose\<close>.
\<close>

definition afterConfirm :: "host \<Rightarrow> outcome \<Rightarrow> wizard \<Rightarrow> wizard" where
  "afterConfirm h out w = (if CloseAfter 2000 \<in> set (effects out) then handleClose h w else w)"

section \<open>The wizard on the screen (renderStep)\<close>

definition dateTimeData :: "string \<Rightarrow> string \<Rightarrow> obj" where
  "dateTimeData date time = [''bookingDate'' \<mapsto> JStr date, ''bookingTime'' \<mapsto> JStr time]"

text \<open>
  The controller at work: the state of its two \<open>useState\<close> hooks; the step that
  \<open>renderStep\<close> switched on when the component was last rendered, which decides what is
  on the screen; the parsed records of the form submissions whose \<open>onSubmit\<close> call is
  still to come (\<open>handleSubmit\<close> of react-hook-form is asynchronous: it validates, and
  calls \<open>onSubmit\<close> when the validation has resolved); and the number of close timers
  set by the confirmation and not yet fired (the timer is never cleared).
\<close>

record session =
  wizardState :: wizard
  rendered :: int
  pending :: "obj list"
  timers :: nat

definition start :: session where
  "start = \<lparr>wizardState = initial, rendered = 1, pending = [], timers = 0\<rparr>"

text \<open>
  What can happen. \<open>Render\<close>: React renders the component again. \<open>Continue\<close>: the
  calendar's continue button, pressed in the given state of the calendar. \<open>Submit\<close>: the
  form is submitted with the given values. \<open>Resolve\<close>: the oldest pending submission
  calls \<open>onSubmit\<close>. \<open>Back\<close>: the back button of the form or of the confirmation.
  \<open>Confirm\<close>: the confirm button, with what \<open>handleConfirmBooking\<close> did.
  \<open>TimerFires\<close>: a close timer calls \<open>onClose\<close>. \<open>Dismiss\<close>: the modal dialog's
  \<open>onOpenChange\<close>.
\<close>

datatype action =
    Render
  | Continue calendar
  | Submit obj
  | Resolve
  | Back
  | Confirm outcome
  | TimerFires
  | Dismiss

text \<open>
  \<open>renderStep\<close> puts the calendar on the screen at step 1, the form at step 2, the
  confirmation at step 3 and nothing at any other step, so a control can be used only
  while the rendered step shows it. The handlers a control calls
  (\<open>handleStepComplete\<close>, \<open>handleBack\<close>, \<open>handleClose\<close>) test nothing: they act on the
  state as it is when they run.
\<close>

definition handle :: "host \<Rightarrow> (string \<Rightarrow> bool) \<Rightarrow> session \<Rightarrow> action \<Rightarrow> session" where
  "handle h is_email s a = (case a of
       Render \<Rightarrow> s\<lparr>rendered := currentStep (wizardState s)\<rparr>
     | Continue cal \<Rightarrow>
         (if rendered s = 1 then
            (case handleContinue cal of
               Some (date, time) \<Rightarrow>
                 s\<lparr>wizardState := handleStepComplete (dateTimeData date time) (wizardState s)\<rparr>
             | None \<Rightarrow> s)
          else s)
     | Submit input \<Rightarrow>
         (if rendered s = 2 then
            (case handleSubmit is_email input of
               Some data \<Rightarrow> s\<lparr>pending := pending s @ [data]\<rparr>
             | None \<Rightarrow> s)
          else s)
     | Resolve \<Rightarrow>
         (case pending s of
            [] \<Rightarrow> s
          | data # rest \<Rightarrow>
              s\<lparr>wizardState := handleStepComplete data (wizardState s), pending := rest\<rparr>)
     | Back \<Rightarrow>
         (if rendered s = 2 \<or> rendered s = 3
          then s\<lparr>wizardState := handleBack (wizardState s)\<rparr> else s)
     | Confirm out \<Rightarrow>
         (if rendered s = 3 \<and> CloseAfter 2000 \<in> set (effects out)
          then s\<lparr>timers := Suc (timers s)\<rparr> else s)
     | TimerFires \<Rightarrow>
         (if 0 < timers s
          then s\<lparr>wizardState := handleClose h (wizardState s), timers := timers s - 1\<rparr>
          else s)
     | Dismiss \<Rightarrow>
         (if h = Modal then s\<lparr>wizardState := handleClose h (wizardState s)\<rparr> else s))"

definition run :: "host \<Rightarrow> (string \<Rightarrow> bool) \<Rightarrow> action list \<Rightarrow> session" where
  "run h is_email as = foldl (handle h is_email) start as"

text \<open>
  An action of the user is taken in step when the screen shows the current step and,
  for a submission of the form, no earlier submission is pending. A sequence of actions
  is orderly when each action of the user in it is taken in step.
\<close>

definition in_step :: "session \<Rightarrow> action \<Rightarrow> bool" where
  "in_step s a = (case a of
       Continue cal \<Rightarrow> rendered s = currentStep (wizardState s)
     | Submit input \<Rightarrow> rendered s = currentStep (wizardState s) \<and> pending s = []
     | Back \<Rightarrow> rendered s = currentStep (wizardState s)
     | _ \<Rightarrow> True)"

fun orderly :: "host \<Rightarrow> (string \<Rightarrow> bool) \<Rightarrow> session \<Rightarrow> action list \<Rightarrow> bool" where
  "orderly h is_email s [] = True"
| "orderly h is_email s (a # as) = (in_step s a \<and> orderly h is_email (handle h is_email s a) as)"

section \<open>Sample inputs\<close>

text \<open>
  The values of the contact form as react-hook-form holds them (every text input a
  string, the group size a number), with the given phone number; and the booking data
  the wizard has accumulated at step 3 from the date 2024-01-08, the time 10:00 and that
  form with a ten-digit phone number.
\<close>

definition sampleForm :: "string \<Rightarrow> obj" where
  "sampleForm phone =
     [''customerName'' \<mapsto> JStr ''Ana Cruz'',
      ''email'' \<mapsto> JStr [],
      ''phone'' \<mapsto> JStr phone,
      ''service'' \<mapsto> JStr ''Paintball Regular (P 700 + 30 bullets)'',
      ''groupSize'' \<mapsto> JNum 4,
      ''specialRequests'' \<mapsto> JStr [],
      ''emergencyContact'' \<mapsto> JStr [],
      ''experience'' \<mapsto> JStr []]"

text \<open>The calendar with 2024-01-08 and 10:00 chosen.\<close>

definition sampleCalendar :: calendar where
  "sampleCalendar = \<lparr>selected = Some (atMidnight 19730), selectedTimeSlot = ''10:00'',
                      bookedSlots = Map.empty, unavailableSchedules = []\<rparr>"

definition sampleData :: obj where
  "sampleData = spread (dateTimeData ''2024-01-08'' ''10:00'') (sampleForm ''1234567890'')"

section \<open>Properties of the wizard controller\<close>

text \<open>
  C7. The completion callback moves from step N to step N + 1 and merges the step's data
  into the accumulated data key by key, a key of the new data taking the new value and
  every other key keeping its earlier value; back moves to step N - 1 and keeps the
  accumulated data; close (of the modal) sets the step to 1 and empties the data.
\<close>

theorem C7_step_transitions:
  "currentStep (handleStepComplete data w) = currentStep w + 1
   \<and> bookingData (handleStepComplete data w) k
       = (if k \<in> dom data then data k else bookingData w k)
   \<and> currentStep (handleBack w) = currentStep w - 1
   \<and> bookingData (handleBack w) = bookingData w
   \<and> currentStep (handleClose Modal w) = 1
   \<and> bookingData (handleClose Modal w) k = None"
  by (auto simp: handleStepComplete_def handleBack_def handleClose_def spread_def
           split: option.splits)

section \<open>Properties of the availability engine\<close>

subsection \<open>Dates at concrete instants\<close>

lemmas date_defs = ms_per_day_def day_of_era_def era_def year_of_era_def day_of_year_def
  month_from_march_def getDate_def getMonth_def getFullYear_def getHours_def getMinutes_def
  getSeconds_def getMilliseconds_def

lemma replicate_numeral_Cons: "replicate (numeral k) x = x # replicate (pred_numeral k) x"
  by (simp add: numeral_eq_Suc)

lemmas show_defs = addLeadingZeros_def show_nat.simps replicate_numeral_Cons

lemma format_2024_01_08: "format_yyyy_MM_dd (atMidnight 19730) = ''2024-01-08''"
  by (simp add: format_yyyy_MM_dd_def atMidnight_def date_defs show_defs)

lemma format_2024_01_07: "format_yyyy_MM_dd (atMidnight 19729) = ''2024-01-07''"
  by (simp add: format_yyyy_MM_dd_def atMidnight_def date_defs show_defs)

lemma format_now: "format_yyyy_MM_dd 1704105000000 = ''2024-01-01''"
  by (simp add: format_yyyy_MM_dd_def date_defs show_defs)

subsection \<open>The bookable window\<close>

lemma startOfDay_eq: "startOfDay now = now div ms_per_day * ms_per_day"
  by (simp add: startOfDay_def minus_mod_eq_div_mult)

lemma before_today: "isBefore (atMidnight d) (startOfDay now) \<longleftrightarrow> d < now div ms_per_day"
  by (simp add: isBefore_def startOfDay_eq atMidnight_def ms_per_day_def)

lemma after_max:
  "isAfter (atMidnight d) (addDays (startOfDay now) 60) \<longleftrightarrow> now div ms_per_day + 60 < d"
proof -
  define q where "q = now div 86400000"
  have "(q * 86400000 + 5184000000 < d * 86400000) = (q + 60 < d)"
    by arith
  then show ?thesis
    by (simp add: isAfter_def addDays_def startOfDay_eq atMidnight_def ms_per_day_def q_def)
qed

lemma getDay_atMidnight: "getDay (atMidnight d) = (d + 4) mod 7"
  by (simp add: getDay_def atMidnight_def ms_per_day_def)

text \<open>
  C3. For a calendar date (day \<open>d\<close>, at its midnight), \<open>isDateDisabled\<close> is true exactly
  when the day is before today's day, or more than 60 days after it, or a Sunday, or the
  date of a full-day unavailability entry. For any date that falls on a Sunday it is
  true whatever the unavailability entries are.
\<close>

theorem C3_isDateDisabled:
  "(isDateDisabled now schedules (atMidnight d) \<longleftrightarrow>
      d < now div ms_per_day
      \<or> now div ms_per_day + 60 < d
      \<or> getDay (atMidnight d) = 0
      \<or> (\<exists>s \<in> set schedules. unavailable_date s = format_yyyy_MM_dd (atMidnight d)
                              \<and> is_full_day s))
   \<and> (getDay date = 0 \<longrightarrow> isDateDisabled now schedules date)"
  by (auto simp: isDateDisabled_def before_today after_max list_ex_iff)

theorem C3_isDateDisabled_witness:
  "getDay (atMidnight 19729) = 0
   \<and> isDateDisabled 1704105000000 [] (atMidnight 19729)
   \<and> \<not> isDateDisabled 1704105000000 [] (atMidnight 19730)"
  using C3_isDateDisabled [of 1704105000000 "[]" 19730 "atMidnight 19729"]
  by (simp add: getDay_atMidnight ms_per_day_def)


subsection \<open>Booked and unavailable slots\<close>

lemma format_not_inherited: "format_yyyy_MM_dd t \<notin> set inherited"
proof -
  have "CHR ''-'' \<in> set (format_yyyy_MM_dd t)"
    by (simp add: format_yyyy_MM_dd_def)
  moreover have "\<forall>name \<in> set inherited. CHR ''-'' \<notin> set name"
    by (simp add: inherited_def)
  ultimately show ?thesis by blast
qed









subsection \<open>Counting the available slots\<close>

lemma getDay_now: "getDay 1704105000000 = 1"
  by (simp add: getDay_def ms_per_day_def)

text \<open>
  C5. \<open>getAvailableTimesCount\<close> is the number of slots of the 13-slot list for which
  \<open>isTimeSlotAvailable\<close> holds in the calendar's state. With today 2024-01-01 (a
  Monday), the date 2024-01-08 selected (it is selectable), no booking and no
  unavailability entry, it is 13.
\<close>

theorem C5_getAvailableTimesCount:
  "getAvailableTimesCount st = length (filter (isTimeSlotAvailable st) timeSlots)
   \<and> length timeSlots = 13
   \<and> format_yyyy_MM_dd 1704105000000 = ''2024-01-01''
   \<and> getDay 1704105000000 = 1
   \<and> format_yyyy_MM_dd (atMidnight 19730) = ''2024-01-08''
   \<and> \<not> isDateDisabled 1704105000000 [] (atMidnight 19730)
   \<and> getAvailableTimesCount
         (loadBookedAppointments (Items [])
            (handleDateSelect (Some (atMidnight 19730))
               \<lparr>selected = None, selectedTimeSlot = [], bookedSlots = Map.empty,
                unavailableSchedules = []\<rparr>)) = 13"
proof -
  have "getAvailableTimesCount st = length (filter (isTimeSlotAvailable st) timeSlots)"
    by (cases "selected st") (simp_all add: getAvailableTimesCount_def isTimeSlotAvailable_def)
  moreover have "length timeSlots = 13"
    by (simp add: timeSlots_def)
  moreover have "\<not> isDateDisabled 1704105000000 [] (atMidnight 19730)"
    by (simp add: isDateDisabled_def before_today after_max getDay_atMidnight ms_per_day_def)
  moreover have "getAvailableTimesCount
         (loadBookedAppointments (Items [])
            (handleDateSelect (Some (atMidnight 19730))
               \<lparr>selected = None, selectedTimeSlot = [], bookedSlots = Map.empty,
                unavailableSchedules = []\<rparr>)) = 13"
    by (simp add: getAvailableTimesCount_def isTimeSlotAvailable_def loadBookedAppointments_def
          parsed_array_def handleDateSelect_def timeSlots_def)
  ultimately show ?thesis
    using format_now format_2024_01_08 getDay_now by simp
qed

text \<open>
  On 2024-01-08, a booking at 10:00 whose status is not "Didn't show up" leaves 12 slots;
  a booking at 10:00 with status "Didn't show up" leaves all 13.
\<close>

theorem booked_slot_reduces_count:
  "getAvailableTimesCount
     (loadBookedAppointments
        (Items [\<lparr>appointment_date = ''2024-01-08'', appointment_time = ''10:00'',
                 status = ''Confirmed''\<rparr>])
        \<lparr>selected = Some (atMidnight 19730), selectedTimeSlot = [],
         bookedSlots = Map.empty, unavailableSchedules = []\<rparr>) = 12
   \<and> getAvailableTimesCount
     (loadBookedAppointments
        (Items [\<lparr>appointment_date = ''2024-01-08'', appointment_time = ''10:00'',
                 status = ''Didn't show up''\<rparr>])
        \<lparr>selected = Some (atMidnight 19730), selectedTimeSlot = [],
         bookedSlots = Map.empty, unavailableSchedules = []\<rparr>) = 13"
  by (simp add: getAvailableTimesCount_def isTimeSlotAvailable_def loadBookedAppointments_def
        parsed_array_def addBooked_def inherited_def timeSlots_def format_2024_01_08)

subsection \<open>Full-day and partial-day entries\<close>

text \<open>
  C6 as stated fails on a Sunday: with today 2024-01-01, the date 2024-01-07 has a
  matching partial-day entry and no full-day entry, and is disabled.
\<close>

theorem C6_partial_day_on_sunday:
  "unavailable_date \<lparr>unavailable_date = ''2024-01-07'', is_full_day = False,
                      unavailable_time = Some ''10:00''\<rparr>
     = format_yyyy_MM_dd (atMidnight 19729)
   \<and> \<not> is_full_day \<lparr>unavailable_date = ''2024-01-07'', is_full_day = False,
                       unavailable_time = Some ''10:00''\<rparr>
   \<and> isDateDisabled 1704105000000
        [\<lparr>unavailable_date = ''2024-01-07'', is_full_day = False,
          unavailable_time = Some ''10:00''\<rparr>]
        (atMidnight 19729)"
  by (simp add: format_2024_01_07 isDateDisabled_def getDay_atMidnight)

text \<open>
  C6, amended. A date with a matching full-day entry is disabled. A calendar date none of
  whose matching entries is full-day is not disabled, provided it is not before today,
  not more than 60 days after today and not a Sunday. A time named by a matching entry
  that is not full-day is not available when that date is selected.
\<close>

theorem C6_full_and_partial_day:
  "((\<exists>s \<in> set schedules. unavailable_date s = format_yyyy_MM_dd date \<and> is_full_day s)
      \<longrightarrow> isDateDisabled now schedules date)
   \<and> ((\<forall>s \<in> set schedules. unavailable_date s = format_yyyy_MM_dd (atMidnight d)
                              \<longrightarrow> \<not> is_full_day s)
        \<and> now div ms_per_day \<le> d \<and> d \<le> now div ms_per_day + 60
        \<and> getDay (atMidnight d) \<noteq> 0
      \<longrightarrow> \<not> isDateDisabled now schedules (atMidnight d))
   \<and> (s \<in> set (unavailableSchedules st) \<and> selected st = Some date
        \<and> unavailable_date s = format_yyyy_MM_dd date \<and> \<not> is_full_day s
        \<and> unavailable_time s = Some time
      \<longrightarrow> \<not> isTimeSlotAvailable st time)"
proof (intro conjI impI)
  assume "\<exists>s \<in> set schedules. unavailable_date s = format_yyyy_MM_dd date \<and> is_full_day s"
  then show "isDateDisabled now schedules date"
    by (auto simp: isDateDisabled_def list_ex_iff)
next
  assume "(\<forall>s \<in> set schedules. unavailable_date s = format_yyyy_MM_dd (atMidnight d)
                              \<longrightarrow> \<not> is_full_day s)
        \<and> now div ms_per_day \<le> d \<and> d \<le> now div ms_per_day + 60
        \<and> getDay (atMidnight d) \<noteq> 0"
  then show "\<not> isDateDisabled now schedules (atMidnight d)"
    by (auto simp: isDateDisabled_def before_today after_max list_ex_iff)
next
  assume "s \<in> set (unavailableSchedules st) \<and> selected st = Some date
        \<and> unavailable_date s = format_yyyy_MM_dd date \<and> \<not> is_full_day s
        \<and> unavailable_time s = Some time"
  then show "\<not> isTimeSlotAvailable st time"
    by (auto simp: isTimeSlotAvailable_def list_ex_iff)
qed

theorem C6_full_and_partial_day_witness:
  "isDateDisabled 1704105000000
     [\<lparr>unavailable_date = ''2024-01-08'', is_full_day = True, unavailable_time = None\<rparr>]
     (atMidnight 19730)
   \<and> \<not> isDateDisabled 1704105000000
     [\<lparr>unavailable_date = ''2024-01-08'', is_full_day = False,
       unavailable_time = Some ''10:00''\<rparr>]
     (atMidnight 19730)
   \<and> \<not> isTimeSlotAvailable
     \<lparr>selected = Some (atMidnight 19730), selectedTimeSlot = [], bookedSlots = Map.empty,
      unavailableSchedules = [\<lparr>unavailable_date = ''2024-01-08'', is_full_day = False,
                               unavailable_time = Some ''10:00''\<rparr>]\<rparr>
     ''10:00''"
  using C6_full_and_partial_day
          [of "[\<lparr>unavailable_date = ''2024-01-08'', is_full_day = True,
                  unavailable_time = None\<rparr>]"
              "atMidnight 19730" 1704105000000 19730
              "\<lparr>unavailable_date = ''2024-01-08'', is_full_day = False,
                unavailable_time = Some ''10:00''\<rparr>"
              "\<lparr>selected = Some (atMidnight 19730), selectedTimeSlot = [],
                bookedSlots = Map.empty,
                unavailableSchedules = [\<lparr>unavailable_date = ''2024-01-08'',
                  is_full_day = False, unavailable_time = Some ''10:00''\<rparr>]\<rparr>"
              "''10:00''"]
        C6_full_and_partial_day
          [of "[\<lparr>unavailable_date = ''2024-01-08'', is_full_day = False,
                  unavailable_time = Some ''10:00''\<rparr>]"
              "atMidnight 19730" 1704105000000 19730]
  by (simp add: format_2024_01_08 getDay_atMidnight ms_per_day_def)

section \<open>Properties of the contact form\<close>

lemma bookingSchema_Inr:
  "bookingSchema is_email input = Inr data \<longleftrightarrow>
     (\<forall>k \<in> set schema_keys. field_issues is_email input k = [])
     \<and> data = (\<lambda>k. if k \<in> set schema_keys then input k else None)"
  by (auto simp: bookingSchema_def Let_def)

lemma bookingSchema_Inl:
  "bookingSchema is_email input = Inl errors \<Longrightarrow>
     set errors = {(k, i). k \<in> set schema_keys \<and> i \<in> set (field_issues is_email input k)}"
  by (fastforce simp: bookingSchema_def Let_def split: if_splits)

lemma phone_issues:
  "field_issues is_email input ''phone''
     = string_min 10 ''Phone number must be at least 10 digits'' (input ''phone'')"
  by (simp add: field_issues_def)

lemma sampleForm_issues:
  "k \<in> set schema_keys \<Longrightarrow> k \<noteq> ''phone'' \<Longrightarrow> field_issues is_email (sampleForm phone) k = []"
  by (auto simp: schema_keys_def field_issues_def sampleForm_def string_min_def
        string_optional_def email_field_def number_range_def)

lemma sampleForm_phone: "sampleForm phone ''phone'' = Some (JStr phone)"
  by (simp add: sampleForm_def)

lemma sampleForm_accepted:
  "10 \<le> length phone \<Longrightarrow> handleSubmit is_email (sampleForm phone) \<noteq> None"
proof -
  assume len: "10 \<le> length phone"
  have "field_issues is_email (sampleForm phone) k = []" if "k \<in> set schema_keys" for k
  proof (cases "k = ''phone''")
    case True
    then show ?thesis using len by (simp add: phone_issues sampleForm_phone string_min_def)
  next
    case False
    then show ?thesis using that by (rule sampleForm_issues [rotated])
  qed
  then have "\<exists>data. bookingSchema is_email (sampleForm phone) = Inr data"
    by (simp add: bookingSchema_Inr)
  then show ?thesis
    by (auto simp: handleSubmit_def)
qed

text \<open>
  C2. The phone field's check counts characters, not digits: the phone number
  "(123) 456-" has six digits and ten characters, the schema reports no issue for it,
  the form hands the record on, and the wizard moves from step 2 to step 3 when the
  submission resolves.
\<close>

theorem C2_phone_counts_characters:
  "digit_count ''(123) 456-'' = 6
   \<and> field_issues is_email (sampleForm ''(123) 456-'') ''phone'' = []
   \<and> handleSubmit is_email (sampleForm ''(123) 456-'') \<noteq> None
   \<and> currentStep (wizardState
        (handle h is_email
           (handle h is_email
              \<lparr>wizardState = \<lparr>currentStep = 2,
                              bookingData = dateTimeData ''2024-01-08'' ''10:00''\<rparr>,
               rendered = 2, pending = [], timers = 0\<rparr>
              (Submit (sampleForm ''(123) 456-'')))
           Resolve)) = 3"
proof -
  have sub: "handleSubmit is_email (sampleForm ''(123) 456-'') \<noteq> None"
    by (rule sampleForm_accepted) simp
  have "digit_count ''(123) 456-'' = 6"
    by (simp add: digit_count_def)
  moreover have "field_issues is_email (sampleForm ''(123) 456-'') ''phone'' = []"
    by (simp add: phone_issues sampleForm_phone string_min_def)
  moreover have "currentStep (wizardState
        (handle h is_email
           (handle h is_email
              \<lparr>wizardState = \<lparr>currentStep = 2,
                              bookingData = dateTimeData ''2024-01-08'' ''10:00''\<rparr>,
               rendered = 2, pending = [], timers = 0\<rparr>
              (Submit (sampleForm ''(123) 456-'')))
           Resolve)) = 3"
    using sub by (auto simp: handle_def handleStepComplete_def)
  ultimately show ?thesis using sub by simp
qed

text \<open>
  What the schema does enforce on the phone field: a phone number shorter than 10
  characters yields the minimum-length issue on that field, no record is handed on and
  the wizard stays where it is; a missing phone number is refused as well; a phone
  number of 10 characters or more yields no issue on that field.
\<close>

theorem phone_minimum_length:
  "(input ''phone'' = Some (JStr phone) \<and> length phone < 10 \<longrightarrow>
      (\<exists>errors. bookingSchema is_email input = Inl errors
         \<and> (''phone'', too_small ''Phone number must be at least 10 digits'') \<in> set errors)
      \<and> handleSubmit is_email input = None
      \<and> handle h is_email w (Submit input) = w)
   \<and> (input ''phone'' = None \<longrightarrow>
      (\<exists>errors. bookingSchema is_email input = Inl errors
         \<and> (''phone'', invalid_type) \<in> set errors)
      \<and> handleSubmit is_email input = None)
   \<and> (input ''phone'' = Some (JStr phone) \<and> 10 \<le> length phone \<longrightarrow>
      field_issues is_email input ''phone'' = [])"
proof -
  have blocked: "(\<exists>errors. bookingSchema is_email input = Inl errors \<and> (''phone'', i) \<in> set errors)
      \<and> handleSubmit is_email input = None
      \<and> handle h is_email w (Submit input) = w"
    if "i \<in> set (field_issues is_email input ''phone'')" for i
  proof -
    have key: "''phone'' \<in> set schema_keys"
      by (simp add: schema_keys_def)
    have "\<not> (\<forall>k \<in> set schema_keys. field_issues is_email input k = [])"
      using that key by force
    then obtain errors where e: "bookingSchema is_email input = Inl errors"
      by (cases "bookingSchema is_email input") (auto simp: bookingSchema_Inr)
    have "(''phone'', i) \<in> set errors"
      using bookingSchema_Inl [OF e] that key by simp
    then show ?thesis
      using e by (simp add: handleSubmit_def handle_def)
  qed
  show ?thesis
    using blocked [of "too_small ''Phone number must be at least 10 digits''"]
          blocked [of invalid_type]
    by (auto simp: phone_issues string_min_def)
qed

theorem phone_minimum_length_witness:
  "handleSubmit (\<lambda>s. False) (sampleForm ''12345'') = None
   \<and> field_issues (\<lambda>s. False) (sampleForm ''1234567890'') ''phone'' = []
   \<and> handleSubmit (\<lambda>s. False) ((sampleForm ''1234567890'')(''phone'' := None)) = None"
  using phone_minimum_length [of "sampleForm ''12345''" "''12345''" "\<lambda>s. False"]
        phone_minimum_length [of "sampleForm ''1234567890''" "''1234567890''" "\<lambda>s. False"]
        phone_minimum_length [of "(sampleForm ''1234567890'')(''phone'' := None)" "[]" "\<lambda>s. False"]
  by (simp add: sampleForm_phone)

section \<open>Properties of the confirmation step\<close>

lemma toISOString_midnight: "toISOString 1704067200000 = ''2024-01-01T00:00:00.000Z''"
  by (simp add: toISOString_def date_defs show_defs)

lemma toISOString_one_ms_later: "toISOString 1704067200001 = ''2024-01-01T00:00:00.001Z''"
  by (simp add: toISOString_def date_defs show_defs)

lemma toString_clock: "toString 1704067200000 = ''1704067200000''"
  by (simp add: toString_def show_nat.simps)

lemma newBooking_fields:
  "newBooking t0 t1 t2 t3 data ''status'' = Some (JStr ''Pending'')"
  "newBooking t0 t1 t2 t3 data ''created_at'' = Some (JStr (toISOString t1))"
  "newBooking t0 t1 t2 t3 data ''updated_at'' = Some (JStr (toISOString t2))"
  "newBooking t0 t1 t2 t3 data ''booked_at'' = Some (JStr (toISOString t3))"
  by (simp_all add: newBooking_def spread_def)

lemma newBooking_id:
  "data ''id'' = None \<Longrightarrow> newBooking t0 t1 t2 t3 data ''id'' = Some (JStr (toString t0))"
  by (simp add: newBooking_def spread_def)

lemma sampleData_id: "sampleData ''id'' = None"
  by (simp add: sampleData_def sampleForm_def dateTimeData_def spread_def)

text \<open>
  C1 as stated fails when the clock ticks between two of the three \<open>new Date()\<close>: the
  record appended has \<open>created_at\<close> 2024-01-01T00:00:00.000Z and \<open>updated_at\<close>
  2024-01-01T00:00:00.001Z.
\<close>

theorem C1_timestamps_differ:
  "stored_bookings
     (handleConfirmBooking 1704067200000 1704067200000 1704067200001 1704067200001
        (\<lambda>bookings. True) sampleData (Items []))
     = Items [newBooking 1704067200000 1704067200000 1704067200001 1704067200001 sampleData]
   \<and> newBooking 1704067200000 1704067200000 1704067200001 1704067200001 sampleData
        ''created_at'' = Some (JStr ''2024-01-01T00:00:00.000Z'')
   \<and> newBooking 1704067200000 1704067200000 1704067200001 1704067200001 sampleData
        ''updated_at'' = Some (JStr ''2024-01-01T00:00:00.001Z'')
   \<and> newBooking 1704067200000 1704067200000 1704067200001 1704067200001 sampleData
        ''created_at''
     \<noteq> newBooking 1704067200000 1704067200000 1704067200001 1704067200001 sampleData
        ''updated_at''"
  by (simp add: handleConfirmBooking_def parsed_array_def newBooking_fields
        toISOString_midnight toISOString_one_ms_later)

text \<open>
  C1, amended. When the stored collection reads as an array (or is absent) and the store
  takes the write, confirming replaces the collection by the earlier records, unchanged
  and in their order, followed by one new record. The new record has status "Pending";
  its \<open>created_at\<close>, \<open>updated_at\<close> and \<open>booked_at\<close> are the ISO texts of three
  successive readings of the clock, and are equal when the three readings are.
\<close>

theorem C1_confirm_appends_one:
  assumes "parsed_array store = Inr existing"
    and "accepts (existing @ [newBooking t0 t1 t2 t3 data])"
  shows "stored_bookings (handleConfirmBooking t0 t1 t2 t3 accepts data store)
           = Items (existing @ [newBooking t0 t1 t2 t3 data])
         \<and> newBooking t0 t1 t2 t3 data ''status'' = Some (JStr ''Pending'')
         \<and> newBooking t0 t1 t2 t3 data ''created_at'' = Some (JStr (toISOString t1))
         \<and> newBooking t0 t1 t2 t3 data ''updated_at'' = Some (JStr (toISOString t2))
         \<and> newBooking t0 t1 t2 t3 data ''booked_at'' = Some (JStr (toISOString t3))
         \<and> (t1 = t2 \<and> t2 = t3 \<longrightarrow>
              newBooking t0 t1 t2 t3 data ''created_at''
                = newBooking t0 t1 t2 t3 data ''updated_at''
              \<and> newBooking t0 t1 t2 t3 data ''updated_at''
                = newBooking t0 t1 t2 t3 data ''booked_at'')"
  using assms by (simp add: handleConfirmBooking_def newBooking_fields)

theorem C1_confirm_appends_one_witness:
  "stored_bookings
     (handleConfirmBooking 1704067200000 1704067200000 1704067200000 1704067200000
        (\<lambda>bookings. True) sampleData (Items [[''id'' \<mapsto> JStr ''17''], [''id'' \<mapsto> JStr ''18'']]))
     = Items [[''id'' \<mapsto> JStr ''17''], [''id'' \<mapsto> JStr ''18''],
              newBooking 1704067200000 1704067200000 1704067200000 1704067200000 sampleData]
   \<and> newBooking 1704067200000 1704067200000 1704067200000 1704067200000 sampleData
        ''status'' = Some (JStr ''Pending'')
   \<and> newBooking 1704067200000 1704067200000 1704067200000 1704067200000 sampleData
        ''created_at'' = Some (JStr ''2024-01-01T00:00:00.000Z'')
   \<and> newBooking 1704067200000 1704067200000 1704067200000 1704067200000 sampleData
        ''updated_at'' = Some (JStr ''2024-01-01T00:00:00.000Z'')
   \<and> newBooking 1704067200000 1704067200000 1704067200000 1704067200000 sampleData
        ''booked_at'' = Some (JStr ''2024-01-01T00:00:00.000Z'')"
  using C1_confirm_appends_one
          [of "Items [[''id'' \<mapsto> JStr ''17''], [''id'' \<mapsto> JStr ''18'']]"
              "[[''id'' \<mapsto> JStr ''17''], [''id'' \<mapsto> JStr ''18'']]"
              "\<lambda>bookings. True" 1704067200000 1704067200000 1704067200000 1704067200000
              sampleData]
  by (simp add: parsed_array_def toISOString_midnight)

text \<open>
  C8. When the read of the stored collection throws, or the store refuses the write,
  the stored collection is what it was, the "Booking Failed" toast is raised, no timer
  for \<open>onClose\<close> is set, and the wizard is left as it is, on the confirmation step.
\<close>

theorem C8_failed_confirm:
  assumes "parsed_array store = Inl e
           \<or> (parsed_array store = Inr existing
               \<and> \<not> accepts (existing @ [newBooking t0 t1 t2 t3 data]))"
  shows "stored_bookings (handleConfirmBooking t0 t1 t2 t3 accepts data store) = store
         \<and> Toast ''Booking Failed'' True
             \<in> set (effects (handleConfirmBooking t0 t1 t2 t3 accepts data store))
         \<and> CloseAfter delay \<notin> set (effects (handleConfirmBooking t0 t1 t2 t3 accepts data store))
         \<and> afterConfirm h (handleConfirmBooking t0 t1 t2 t3 accepts data store) w = w"
  using assms
  by (auto simp: handleConfirmBooking_def bookingFailed_def afterConfirm_def)

theorem C8_failed_confirm_witness:
  "stored_bookings (handleConfirmBooking 1704067200000 1704067200000 1704067200000
       1704067200000 (\<lambda>bookings. True) sampleData Malformed) = Malformed
   \<and> effects (handleConfirmBooking 1704067200000 1704067200000 1704067200000
       1704067200000 (\<lambda>bookings. True) sampleData Malformed)
       = [ConsoleError, Toast ''Booking Failed'' True]
   \<and> afterConfirm Modal (handleConfirmBooking 1704067200000 1704067200000 1704067200000
       1704067200000 (\<lambda>bookings. True) sampleData Malformed)
       \<lparr>currentStep = 3, bookingData = sampleData\<rparr>
       = \<lparr>currentStep = 3, bookingData = sampleData\<rparr>
   \<and> stored_bookings (handleConfirmBooking 1704067200000 1704067200000 1704067200000
       1704067200000 (\<lambda>bookings. False) sampleData (Items [[''id'' \<mapsto> JStr ''17'']]))
       = Items [[''id'' \<mapsto> JStr ''17'']]
   \<and> afterConfirm Page (handleConfirmBooking 1704067200000 1704067200000 1704067200000
       1704067200000 (\<lambda>bookings. False) sampleData (Items [[''id'' \<mapsto> JStr ''17'']]))
       \<lparr>currentStep = 3, bookingData = sampleData\<rparr>
       = \<lparr>currentStep = 3, bookingData = sampleData\<rparr>"
  using C8_failed_confirm
          [of Malformed SyntaxError "[]" "\<lambda>bookings. True" 1704067200000 1704067200000
              1704067200000 1704067200000 sampleData 2000 Modal
              "\<lparr>currentStep = 3, bookingData = sampleData\<rparr>"]
        C8_failed_confirm
          [of "Items [[''id'' \<mapsto> JStr ''17'']]" SyntaxError "[[''id'' \<mapsto> JStr ''17'']]"
              "\<lambda>bookings. False" 1704067200000 1704067200000
              1704067200000 1704067200000 sampleData 2000 Page
              "\<lparr>currentStep = 3, bookingData = sampleData\<rparr>"]
  by (simp add: parsed_array_def handleConfirmBooking_def bookingFailed_def)

text \<open>
  C9. The identifier is the clock's reading and is not compared with the stored ones:
  confirming twice while \<open>Date.now()\<close> returns 1704067200000 stores two records with the
  identifier "1704067200000".
\<close>

theorem C9_same_millisecond_same_id:
  "stored_bookings
     (handleConfirmBooking 1704067200000 1704067200000 1704067200000 1704067200000
        (\<lambda>bookings. True) sampleData
        (stored_bookings
           (handleConfirmBooking 1704067200000 1704067200000 1704067200000 1704067200000
              (\<lambda>bookings. True) sampleData Missing)))
     = Items [newBooking 1704067200000 1704067200000 1704067200000 1704067200000 sampleData,
              newBooking 1704067200000 1704067200000 1704067200000 1704067200000 sampleData]
   \<and> newBooking 1704067200000 1704067200000 1704067200000 1704067200000 sampleData ''id''
       = Some (JStr ''1704067200000'')"
  by (simp add: handleConfirmBooking_def parsed_array_def newBooking_id sampleData_id
        toString_clock)

section \<open>Properties of the wizard on the screen\<close>

lemma handleSubmit_sampleForm:
  assumes "10 \<le> length phone"
  shows "handleSubmit is_email (sampleForm phone)
           = Some (\<lambda>k. if k \<in> set schema_keys then sampleForm phone k else None)"
proof -
  from sampleForm_accepted [OF assms, of is_email]
  obtain data where parsed: "bookingSchema is_email (sampleForm phone) = Inr data"
    by (auto simp: handleSubmit_def split: sum.splits)
  then have "data = (\<lambda>k. if k \<in> set schema_keys then sampleForm phone k else None)"
    by (simp add: bookingSchema_Inr)
  with parsed show ?thesis
    by (simp add: handleSubmit_def)
qed

lemma handleContinue_sampleCalendar:
  "handleContinue sampleCalendar = Some (format_yyyy_MM_dd (atMidnight 19730), ''10:00'')"
  by (simp add: handleContinue_def sampleCalendar_def)

lemma confirmed_sets_timer:
  "CloseAfter 2000 \<in> set (effects (handleConfirmBooking t0 t1 t2 t3 (\<lambda>bookings. True) data Missing))"
  by (simp add: handleConfirmBooking_def parsed_array_def)

lemma handle_keeps_range:
  assumes "in_step s a"
    and "currentStep (wizardState s) \<in> {1, 2, 3}"
    and "length (pending s) \<le> 1"
    and "pending s \<noteq> [] \<longrightarrow> currentStep (wizardState s) \<in> {1, 2}"
  shows "currentStep (wizardState (handle h is_email s a)) \<in> {1, 2, 3}
         \<and> length (pending (handle h is_email s a)) \<le> 1
         \<and> (pending (handle h is_email s a) \<noteq> []
              \<longrightarrow> currentStep (wizardState (handle h is_email s a)) \<in> {1, 2})"
proof (cases a)
  case Render
  then show ?thesis using assms by (simp add: handle_def)
next
  case (Continue cal)
  then show ?thesis using assms
    by (auto simp: handle_def in_step_def handleStepComplete_def split: option.splits)
next
  case (Submit input)
  then show ?thesis using assms
    by (auto simp: handle_def in_step_def split: option.splits)
next
  case Resolve
  then show ?thesis using assms
    by (cases "pending s") (auto simp: handle_def handleStepComplete_def)
next
  case Back
  then show ?thesis using assms
    by (auto simp: handle_def in_step_def handleBack_def)
next
  case (Confirm out)
  then show ?thesis using assms by (simp add: handle_def)
next
  case TimerFires
  then show ?thesis using assms
    by (cases h) (auto simp: handle_def handleClose_def)
next
  case Dismiss
  then show ?thesis using assms
    by (cases h) (auto simp: handle_def handleClose_def)
qed

lemma orderly_keeps_range:
  assumes "orderly h is_email s as"
    and "currentStep (wizardState s) \<in> {1, 2, 3}"
    and "length (pending s) \<le> 1"
    and "pending s \<noteq> [] \<longrightarrow> currentStep (wizardState s) \<in> {1, 2}"
  shows "currentStep (wizardState (foldl (handle h is_email) s as)) \<in> {1, 2, 3}"
  using assms
proof (induction as arbitrary: s)
  case Nil
  then show ?case by simp
next
  case (Cons a as)
  from Cons.prems have step: "in_step s a"
    and rest: "orderly h is_email (handle h is_email s a) as"
    by simp_all
  from handle_keeps_range [OF step Cons.prems(2) Cons.prems(3) Cons.prems(4), of h is_email]
  have "currentStep (wizardState (foldl (handle h is_email) (handle h is_email s a) as))
          \<in> {1, 2, 3}"
    by (intro Cons.IH [OF rest]) simp_all
  then show ?case by simp
qed

text \<open>
  C10 as stated fails when the form is submitted twice: each submission calls
  \<open>handleStepComplete\<close>, which adds 1 whatever the step is, and the step is 4. The
  second submission is accepted either while the first is still pending, or after the
  first has called \<open>onSubmit\<close> and before the form has left the screen.
\<close>

theorem C10_two_submissions_reach_step_4:
  "currentStep (wizardState (run Modal (\<lambda>s. False)
     [Continue sampleCalendar, Render,
      Submit (sampleForm ''1234567890''), Submit (sampleForm ''1234567890''),
      Resolve, Resolve])) = 4
   \<and> currentStep (wizardState (run Modal (\<lambda>s. False)
     [Continue sampleCalendar, Render,
      Submit (sampleForm ''1234567890''), Resolve,
      Submit (sampleForm ''1234567890''), Resolve])) = 4"
  by (simp add: run_def start_def initial_def handle_def handleContinue_sampleCalendar
        handleSubmit_sampleForm handleStepComplete_def)

text \<open>
  C10, amended. In the modal and on the page, the step stays in {1, 2, 3} along every
  orderly sequence of actions: every continue, submit and back is taken while the screen
  shows the current step, and no form is submitted while an earlier submission is
  pending. Renders, resolving submissions, confirmations, close timers (which may fire
  at any step) and dismissals of the dialog may come in any order.
\<close>

theorem C10_step_in_range:
  "orderly h is_email start as \<Longrightarrow> currentStep (wizardState (run h is_email as)) \<in> {1, 2, 3}"
  unfolding run_def
  by (rule orderly_keeps_range) (simp_all add: start_def initial_def)

theorem C10_step_in_range_witness:
  "orderly Modal (\<lambda>s. False) start
     [Continue sampleCalendar, Render, Submit (sampleForm ''1234567890''), Resolve, Render,
      Confirm (handleConfirmBooking 1704067200000 1704067200000 1704067200000 1704067200000
                 (\<lambda>bookings. True) sampleData Missing),
      Back, TimerFires]
   \<and> currentStep (wizardState (run Modal (\<lambda>s. False)
     [Continue sampleCalendar, Render, Submit (sampleForm ''1234567890''), Resolve, Render,
      Confirm (handleConfirmBooking 1704067200000 1704067200000 1704067200000 1704067200000
                 (\<lambda>bookings. True) sampleData Missing),
      Back, TimerFires])) \<in> {1, 2, 3}"
proof -
  have o: "orderly Modal (\<lambda>s. False) start
     [Continue sampleCalendar, Render, Submit (sampleForm ''1234567890''), Resolve, Render,
      Confirm (handleConfirmBooking 1704067200000 1704067200000 1704067200000 1704067200000
                 (\<lambda>bookings. True) sampleData Missing),
      Back, TimerFires]"
    by (simp add: start_def initial_def handle_def in_step_def handleContinue_sampleCalendar
          handleSubmit_sampleForm handleStepComplete_def handleBack_def confirmed_sets_timer)
  from C10_step_in_range [OF o] o show ?thesis by simp
qed

text \<open>
  Going back twice keeps the accumulated data: what was entered at step 2 is still
  there when the confirmation is reached again.
\<close>

theorem back_keeps_data:
  "bookingData (wizardState (handle h is_email (handle h is_email s Back) Back))
     = bookingData (wizardState s)"
  by (simp add: handle_def handleBack_def)

end
